theory Spec2Isabelle
  imports Complex_Main
begin

section \<open>Data model\<close>

text \<open>
  The position vectors of \<^verbatim>\<open>eclipse.py\<close> are arrays of three components (kilometres,
  Earth-centred inertial frame). A vector is modelled as a triple of reals: the
  float64 components of the source are idealised as real numbers, so rounding is not
  part of the model. Division is the one of the reals; the theorems below that divide
  by a norm assume a non-zero vector, as the source's callers have to.
\<close>

type_synonym vec3 = "real \<times> real \<times> real"

text \<open>The array operations the source uses: \<^verbatim>\<open>-x\<close>, \<^verbatim>\<open>x * y\<close> (componentwise),
  \<^verbatim>\<open>x / s\<close> and \<^verbatim>\<open>s * x\<close> with a scalar \<^verbatim>\<open>s\<close>, \<^verbatim>\<open>np.sum(x, axis=0)\<close> and \<^verbatim>\<open>np.dot(x, y)\<close>.\<close>

fun vneg :: "vec3 \<Rightarrow> vec3" where
  "vneg (x1, x2, x3) = (- x1, - x2, - x3)"

fun vmul :: "vec3 \<Rightarrow> vec3 \<Rightarrow> vec3" where
  "vmul (x1, x2, x3) (y1, y2, y3) = (x1 * y1, x2 * y2, x3 * y3)"

fun vdiv :: "vec3 \<Rightarrow> real \<Rightarrow> vec3" where
  "vdiv (x1, x2, x3) s = (x1 / s, x2 / s, x3 / s)"


fun np_sum :: "vec3 \<Rightarrow> real" where
  "np_sum (x1, x2, x3) = x1 + x2 + x3"

fun np_dot :: "vec3 \<Rightarrow> vec3 \<Rightarrow> real" where
  "np_dot (x1, x2, x3) (y1, y2, y3) = x1 * y1 + x2 * y2 + x3 * y3"

text \<open>\<^verbatim>\<open>np.linalg.norm(x)\<close> of a one-dimensional array: the Euclidean length.\<close>

fun linalg_norm :: "vec3 \<Rightarrow> real" where
  "linalg_norm (x1, x2, x3) = sqrt (x1 * x1 + x2 * x2 + x3 * x3)"

text \<open>\<^verbatim>\<open>np.rad2deg\<close>.\<close>

definition rad2deg :: "real \<Rightarrow> real" where
  "rad2deg r = r * (180 / pi)"

section \<open>utils/math.py\<close>

definition norm_v :: "vec3 \<Rightarrow> real" where
  "norm_v x = linalg_norm x"

definition unit_vector :: "vec3 \<Rightarrow> vec3" where
  "unit_vector x = vdiv x (linalg_norm x)"

definition angle_between_vectors_rad :: "vec3 \<Rightarrow> vec3 \<Rightarrow> real" where
  "angle_between_vectors_rad a b = arccos (np_sum (vmul (unit_vector a) (unit_vector b)))"

definition angle_between_vectors_deg :: "vec3 \<Rightarrow> vec3 \<Rightarrow> real" where
  "angle_between_vectors_deg a b =
     rad2deg (arccos (np_sum (vmul (unit_vector a) (unit_vector b))))"

section \<open>utils/constants.py\<close>

text \<open>Modelled from the spec: the constants module is not among the sources; the
  specification gives the Earth radius as 6378.137 km.\<close>

definition earth_radius_km :: real where
  "earth_radius_km = 6378.137"

text \<open>Modelled from the spec: the constants module is not among the sources; the
  specification gives the Sun radius as 695,700 km.\<close>

definition sun_radius_km :: real where
  "sun_radius_km = 695700"

section \<open>eclipse.py\<close>

text \<open>The result is the pair \<open>(in_penumbra, in_umbra)\<close>, in the order the source returns it.\<close>

definition check_object_umbra_penumba :: "vec3 \<Rightarrow> vec3 \<Rightarrow> bool \<times> bool" where
  "check_object_umbra_penumba earth_object_position_vector_eci earth_sun_position_vector_eci =
     (let earth_sun_distance = norm_v earth_sun_position_vector_eci;
          umbra_angle = arctan ((sun_radius_km - earth_radius_km) / earth_sun_distance);
          penumbra_angle = arctan ((sun_radius_km + earth_radius_km) / earth_sun_distance)
      in if np_dot earth_object_position_vector_eci earth_sun_position_vector_eci < 0 then
           (let angle = angle_between_vectors_rad (vneg earth_sun_position_vector_eci)
                          earth_object_position_vector_eci;
                sathoriz = norm_v earth_object_position_vector_eci * cos angle;
                satvert = norm_v earth_object_position_vector_eci * sin angle;
                x = earth_radius_km / sin penumbra_angle;
                penvert = tan penumbra_angle * (x + sathoriz)
            in if satvert \<le> penvert then
                 (let y = earth_radius_km / sin umbra_angle;
                      umbvert = tan umbra_angle * (y - sathoriz)
                  in if satvert \<le> umbvert then (True, True) else (True, False))
               else (False, False))
         else (False, False))"

definition check_eclipse :: "vec3 \<Rightarrow> vec3 \<Rightarrow> bool" where
  "check_eclipse earth_object_position_vector_eci earth_sun_position_vector_eci =
     (case check_object_umbra_penumba earth_object_position_vector_eci
             (vneg earth_sun_position_vector_eci) of
        (in_penumbra, in_umbra) \<Rightarrow> if in_penumbra \<or> in_umbra then True else False)"

section \<open>Vector algebra\<close>







lemma np_sum_vmul: "np_sum (vmul a b) = np_dot a b"
  by (cases a, cases b) simp

lemma np_dot_vdiv: "np_dot (vdiv a s) (vdiv b t) = np_dot a b / (s * t)"
  by (cases a, cases b) (simp add: add_divide_distrib)

text \<open>A negative dot product excludes the zero vector on either side, so the branch of
  the shadow test that computes the angle never divides by a zero norm.\<close>

lemma np_dot_neg_nonzero:
  assumes "np_dot a b < 0"
  shows "a \<noteq> (0, 0, 0)" and "b \<noteq> (0, 0, 0)"
  using assms by (cases a, cases b, auto)+

text \<open>The sum the two angle functions pass to \<open>arccos\<close>, as a quotient.\<close>

lemma unit_dot: "np_sum (vmul (unit_vector a) (unit_vector b))
    = np_dot a b / (linalg_norm a * linalg_norm b)"
  by (simp add: np_sum_vmul unit_vector_def np_dot_vdiv)















text \<open>Claim C9: for every pair of non-zero vectors, the degree variant is the radian result
  multiplied by \<open>180 / \<pi>\<close>.\<close>

theorem angle_between_vectors_deg_rad:
  assumes "a \<noteq> (0, 0, 0)" and "b \<noteq> (0, 0, 0)"
  shows "angle_between_vectors_deg a b = angle_between_vectors_rad a b * (180 / pi)"
  by (simp add: angle_between_vectors_deg_def angle_between_vectors_rad_def rad2deg_def)

theorem angle_between_vectors_deg_rad_witness:
  "((1, 0, 0) :: vec3) \<noteq> (0, 0, 0) \<and> ((0, 1, 0) :: vec3) \<noteq> (0, 0, 0)
   \<and> angle_between_vectors_deg (1, 0, 0) (0, 1, 0)
       = angle_between_vectors_rad (1, 0, 0) (0, 1, 0) * (180 / pi)"
  using angle_between_vectors_deg_rad [of "(1, 0, 0)" "(0, 1, 0)"] by simp

section \<open>The shadow test\<close>

text \<open>The half-angles of the two cones are arcus tangents of positive ratios, so their
  sines are positive and at most the ratio itself.\<close>

lemma sin_arctan_pos: "0 < x \<Longrightarrow> 0 < sin (arctan x)"
  using arctan_ubound [of x] by (intro sin_gt_zero2) simp_all

lemma sin_arctan_le:
  assumes "0 \<le> x"
  shows "sin (arctan x) \<le> x"
proof -
  have "1 \<le> sqrt (1 + x\<^sup>2)" by simp
  then have "x / sqrt (1 + x\<^sup>2) \<le> x / 1"
    using assms by (intro divide_left_mono) (simp_all add: add_pos_nonneg)
  then show ?thesis by (simp add: sin_arctan)
qed

text \<open>A body on the axis through the Earth and the Sun, on the side away from the Sun and
  no farther than the tip of the umbral cone allows, is in the umbra.\<close>

lemma linalg_norm_axis: "linalg_norm (x, 0, 0) = \<bar>x\<bar>"
  by simp

lemma angle_on_axis:
  assumes "0 < r" and "0 < d"
  shows "angle_between_vectors_rad (vneg (d, 0, 0)) (- r, 0, 0) = 0"
proof -
  have "np_sum (vmul (unit_vector (vneg (d, 0, 0))) (unit_vector (- r, 0, 0))) = 1"
    unfolding unit_dot using assms by simp
  then show ?thesis by (simp add: angle_between_vectors_rad_def)
qed

lemma behind_earth_on_axis:
  assumes r: "0 < r" and d: "0 < d"
    and radii: "earth_radius_km < sun_radius_km" "0 < earth_radius_km"
    and near: "r * (sun_radius_km - earth_radius_km) \<le> earth_radius_km * d"
  shows "check_object_umbra_penumba (- r, 0, 0) (d, 0, 0) = (True, True)"
proof -
  define xp where "xp = (sun_radius_km + earth_radius_km) / d"
  define xu where "xu = (sun_radius_km - earth_radius_km) / d"
  have xp: "0 < xp" and xu: "0 < xu"
    using d radii by (simp_all add: xp_def xu_def)
  have dot: "np_dot (- r, 0, 0) (d, 0, 0) < 0"
    using r d by (simp add: mult_pos_pos)
  have nd: "norm_v (d, 0, 0) = d" and nr: "norm_v (- r, 0, 0) = r"
    using r d by (simp_all add: norm_v_def)
  have pen: "0 \<le> tan (arctan xp) * (earth_radius_km / sin (arctan xp) + r)"
    using xp r radii sin_arctan_pos [of xp] by (simp add: tan_arctan add_nonneg_nonneg)
  have "sin (arctan xu) \<le> xu" using xu by (simp add: sin_arctan_le)
  then have "earth_radius_km / xu \<le> earth_radius_km / sin (arctan xu)"
    using sin_arctan_pos [OF xu] radii by (intro divide_left_mono) simp_all
  moreover have "r \<le> earth_radius_km / xu"
    using near d radii by (simp add: xu_def pos_le_divide_eq)
  ultimately have "0 \<le> earth_radius_km / sin (arctan xu) - r" by linarith
  then have umb: "0 \<le> tan (arctan xu) * (earth_radius_km / sin (arctan xu) - r)"
    using xu by (simp add: tan_arctan)
  show ?thesis
    unfolding check_object_umbra_penumba_def Let_def nd nr angle_on_axis [OF r d]
    using dot pen umb by (simp add: xp_def xu_def)
qed

lemma geostationary_scenario:
  "check_object_umbra_penumba (- 42164, 0, 0) (149600000, 0, 0) = (True, True)"
  by (rule behind_earth_on_axis) (simp_all add: earth_radius_km_def sun_radius_km_def)

text \<open>Claim C6: for the body at \<open>(-42164, 0, 0)\<close> km and the Sun at
  \<open>(1.496e8, 0, 0)\<close> km the test returns \<open>in_penumbra = True\<close> and \<open>in_umbra = True\<close>.\<close>

theorem check_object_umbra_penumba_geostationary:
  "check_object_umbra_penumba (- 42164, 0, 0) (1.496 * 10 ^ 8, 0, 0) = (True, True)"
  using geostationary_scenario by simp

text \<open>Claim C1: \<open>check_eclipse\<close> is the disjunction of the two results of the
  umbra/penumbra test applied to the body position and the negated Sun position.\<close>

theorem check_eclipse_or:
  "check_eclipse body sun
     = (fst (check_object_umbra_penumba body (vneg sun))
        \<or> snd (check_object_umbra_penumba body (vneg sun)))"
  by (simp add: check_eclipse_def split: prod.split)

text \<open>Claim C2: whenever the dot product of the body position and the Sun position is not
  negative, the test returns \<open>False\<close> twice; the branch with the cone geometry is not taken.\<close>

theorem sunlit_side_no_eclipse:
  assumes "np_dot body sun \<ge> 0"
  shows "check_object_umbra_penumba body sun = (False, False)"
  using assms by (simp add: check_object_umbra_penumba_def Let_def)

theorem sunlit_side_no_eclipse_witness:
  "np_dot (42164, 0, 0) (149600000, 0, 0) \<ge> 0
   \<and> check_object_umbra_penumba (42164, 0, 0) (149600000, 0, 0) = (False, False)"
  using sunlit_side_no_eclipse [of "(42164, 0, 0)" "(149600000, 0, 0)"] by simp

text \<open>Claim C4: if the test returns \<open>in_umbra = True\<close> it also returns
  \<open>in_penumbra = True\<close>.\<close>

theorem umbra_subset_penumbra:
  "snd (check_object_umbra_penumba body sun) \<longrightarrow> fst (check_object_umbra_penumba body sun)"
  by (simp add: check_object_umbra_penumba_def Let_def)

theorem umbra_subset_penumbra_witness:
  "snd (check_object_umbra_penumba (- 42164, 0, 0) (149600000, 0, 0))
   \<and> fst (check_object_umbra_penumba (- 42164, 0, 0) (149600000, 0, 0))"
  using umbra_subset_penumbra [of "(- 42164, 0, 0)" "(149600000, 0, 0)"]
  by (simp add: geostationary_scenario)

text \<open>Claim C3: when the dot product is negative, \<open>in_penumbra\<close> holds exactly when the
  vertical offset is at most the radius of the penumbral cone at the body's horizontal
  offset, and \<open>in_umbra\<close> exactly when it is, in addition, at most the radius of the
  umbral cone there.\<close>

theorem cone_test:
  assumes "np_dot body sun < 0"
  shows "let d = norm_v sun;
             umbraAngle = arctan ((sun_radius_km - earth_radius_km) / d);
             penumbraAngle = arctan ((sun_radius_km + earth_radius_km) / d);
             angle = angle_between_vectors_rad (vneg sun) body;
             horiz = norm_v body * cos angle;
             vert = norm_v body * sin angle;
             inPenumbra = fst (check_object_umbra_penumba body sun);
             inUmbra = snd (check_object_umbra_penumba body sun)
         in (inPenumbra \<longleftrightarrow>
               vert \<le> tan penumbraAngle * (earth_radius_km / sin penumbraAngle + horiz))
          \<and> (inUmbra \<longleftrightarrow>
               vert \<le> tan penumbraAngle * (earth_radius_km / sin penumbraAngle + horiz)
             \<and> vert \<le> tan umbraAngle * (earth_radius_km / sin umbraAngle - horiz))"
  using assms by (simp add: check_object_umbra_penumba_def Let_def)

theorem cone_test_witness:
  "np_dot (- 42164, 0, 0) (149600000, 0, 0) < 0 \<and>
   (let body = (- 42164, 0, 0); sun = (149600000, 0, 0); d = norm_v sun;
             umbraAngle = arctan ((sun_radius_km - earth_radius_km) / d);
             penumbraAngle = arctan ((sun_radius_km + earth_radius_km) / d);
             angle = angle_between_vectors_rad (vneg sun) body;
             horiz = norm_v body * cos angle;
             vert = norm_v body * sin angle;
             inPenumbra = fst (check_object_umbra_penumba body sun);
             inUmbra = snd (check_object_umbra_penumba body sun)
         in (inPenumbra \<longleftrightarrow>
               vert \<le> tan penumbraAngle * (earth_radius_km / sin penumbraAngle + horiz))
          \<and> (inUmbra \<longleftrightarrow>
               vert \<le> tan penumbraAngle * (earth_radius_km / sin penumbraAngle + horiz)
             \<and> vert \<le> tan umbraAngle * (earth_radius_km / sin umbraAngle - horiz)))"
  using cone_test [of "(- 42164, 0, 0)" "(149600000, 0, 0)"]
  by (simp add: Let_def)

end
